theory Spec2Isabelle
  imports Main "HOL-Library.AList"
begin

section \<open>The Hive integration: values, exceptions and module constants\<close>

text \<open>
  The module \<^verbatim>\<open>homeassistant/components/hive/__init__.py\<close> is glue between the host
  framework and the vendor client. Its dictionaries are association lists (insertion
  order kept, \<open>map_of\<close> for lookup, \<open>AList.update\<close> for item assignment), its exceptions
  are values of one datatype, and everything it mutates lives in one record, threaded
  through the operations.
\<close>

text \<open>Values found in a vendor device dictionary. Keys of dictionaries are strings.\<close>

datatype pyval =
    PNone
  | PBool bool
  | PInt int
  | PStr string
  | PList "pyval list"
  | PDict "(string \<times> pyval) list"

text \<open>
  Exceptions. \<open>HTTPException\<close> and \<open>HiveReauthRequired\<close> stand for instances of these
  classes (and of their subclasses); \<open>OtherException\<close> is any exception that is an instance
  of neither.
\<close>

datatype exn =
    KeyError
  | TypeError
  | HTTPException
  | HiveReauthRequired
  | ConfigEntryNotReady
  | ConfigEntryAuthFailed
  | OtherException string

text \<open>
  The constants the module imports from \<^verbatim>\<open>.const\<close> and \<^verbatim>\<open>homeassistant.const\<close> are
  defined outside this file; the operations take them as a parameter.
\<close>

record hive_consts =
  DOMAIN :: string
  PLATFORMS :: "string list"
  PLATFORM_LOOKUP :: "(string \<times> string) list"
  CONF_USERNAME :: string
  CONF_PASSWORD :: string
  CONF_SCAN_INTERVAL :: string
  SOURCE_IMPORT :: string

section \<open>The device-type metadata table\<close>

datatype BinarySensorDeviceClass = OPENING | MOTION | CONNECTIVITY | SMOKE | SOUND

datatype SensorDeviceClass = TEMPERATURE | BATTERY | ENERGY

datatype SensorStateClass = MEASUREMENT

datatype unit_const = TEMP_CELSIUS | POWER_WATT

datatype metaval =
    BinaryClass BinarySensorDeviceClass
  | SensorClass SensorDeviceClass
  | StateClass SensorStateClass
  | UnitOf unit_const
  | Icon string

type_synonym metarec = "(string \<times> metaval) list"

type_synonym devicetype = "(string \<times> metarec) list"

definition DEVICETYPE :: devicetype where
  "DEVICETYPE =
    [ (''contactsensor'', [(''device_class'', BinaryClass OPENING)]),
      (''motionsensor'', [(''device_class'', BinaryClass MOTION)]),
      (''Connectivity'', [(''device_class'', BinaryClass CONNECTIVITY)]),
      (''SMOKE_CO'', [(''device_class'', BinaryClass SMOKE)]),
      (''DOG_BARK'', [(''device_class'', BinaryClass SOUND)]),
      (''GLASS_BREAK'', [(''device_class'', BinaryClass SOUND)]),
      (''Heating_Current_Temperature'',
         [(''device_class'', SensorClass TEMPERATURE),
          (''state_class'', StateClass MEASUREMENT),
          (''unit'', UnitOf TEMP_CELSIUS)]),
      (''Heating_Target_Temperature'',
         [(''device_class'', SensorClass TEMPERATURE),
          (''state_class'', StateClass MEASUREMENT),
          (''unit'', UnitOf TEMP_CELSIUS)]),
      (''Heating_State'', [(''icon'', Icon ''mdi:radiator'')]),
      (''Heating_Mode'', [(''icon'', Icon ''mdi:radiator'')]),
      (''Heating_Boost'', [(''icon'', Icon ''mdi:radiator'')]),
      (''Hotwater_State'', [(''icon'', Icon ''mdi:water-pump'')]),
      (''Hotwater_Mode'', [(''icon'', Icon ''mdi:water-pump'')]),
      (''Hotwater_Boost'', [(''icon'', Icon ''mdi:water-pump'')]),
      (''Heating_Heat_On_Demand'', []),
      (''Mode'', [(''icon'', Icon ''mdi:eye'')]),
      (''Availability'', [(''icon'', Icon ''mdi:check-circle'')]),
      (''warmwhitelight'', []),
      (''tuneablelight'', []),
      (''colourtunablelight'', []),
      (''activeplug'', []),
      (''trvcontrol'', []),
      (''heating'', []),
      (''siren'', []),
      (''Battery'',
         [(''device_class'', SensorClass BATTERY),
          (''state_class'', StateClass MEASUREMENT)]),
      (''Power'',
         [(''device_class'', SensorClass ENERGY),
          (''state_class'', StateClass MEASUREMENT),
          (''unit'', UnitOf POWER_WATT)]) ]"

section \<open>Dictionary access\<close>

text \<open>Sequencing of steps that may raise: the first exception ends the computation.\<close>

definition andthen :: "exn + 'a \<Rightarrow> ('a \<Rightarrow> exn + 'b) \<Rightarrow> exn + 'b" where
  "andthen r f = (case r of Inl e \<Rightarrow> Inl e | Inr x \<Rightarrow> f x)"

text \<open>Lists and dictionaries are unhashable: using one as a key raises TypeError.\<close>

fun hashable :: "pyval \<Rightarrow> bool" where
  "hashable (PList _) = False"
| "hashable (PDict _) = False"
| "hashable _ = True"

text \<open>\<^verbatim>\<open>d[k]\<close> on a dictionary with string keys and a string key \<open>k\<close>.\<close>

definition getitem :: "(string \<times> 'v) list \<Rightarrow> string \<Rightarrow> exn + 'v" where
  "getitem d k = (case map_of d k of None \<Rightarrow> Inl KeyError | Some v \<Rightarrow> Inr v)"

text \<open>
  \<^verbatim>\<open>d.get(k)\<close> and \<^verbatim>\<open>d[k]\<close> where the key is a value read from a device dictionary: an
  unhashable key raises TypeError, a key that is not a string equals no key of the table.
\<close>

definition get_val :: "(string \<times> 'v) list \<Rightarrow> pyval \<Rightarrow> exn + 'v option" where
  "get_val d k =
     (if \<not> hashable k then Inl TypeError
      else case k of PStr s \<Rightarrow> Inr (map_of d s) | _ \<Rightarrow> Inr None)"

definition getitem_val :: "(string \<times> 'v) list \<Rightarrow> pyval \<Rightarrow> exn + 'v" where
  "getitem_val d k =
     andthen (get_val d k) (\<lambda>r. case r of None \<Rightarrow> Inl KeyError | Some v \<Rightarrow> Inr v)"

text \<open>\<^verbatim>\<open>v[k]\<close> with a string key on a value: only a dictionary accepts it.\<close>

definition subscript :: "pyval \<Rightarrow> string \<Rightarrow> exn + pyval" where
  "subscript v k = (case v of PDict d \<Rightarrow> getitem d k | _ \<Rightarrow> Inl TypeError)"

text \<open>\<^verbatim>\<open>d.get(k)\<close> on a dictionary of values: None when the key is absent.\<close>

definition get_or_none :: "(string \<times> pyval) list \<Rightarrow> string \<Rightarrow> pyval" where
  "get_or_none d k = (case map_of d k of None \<Rightarrow> PNone | Some v \<Rightarrow> v)"

section \<open>Formatting a value in an f-string\<close>

definition digit_char :: "nat \<Rightarrow> char" where
  "digit_char d = char_of (48 + d)"

function str_of_nat :: "nat \<Rightarrow> string" where
  "str_of_nat n =
     (if n < 10 then [digit_char n] else str_of_nat (n div 10) @ [digit_char (n mod 10)])"
  by pat_completeness auto
termination
  by (relation "measure id") auto

definition str_of_int :: "int \<Rightarrow> string" where
  "str_of_int i = (if i < 0 then CHR ''-'' # str_of_nat (nat (- i)) else str_of_nat (nat i))"

text \<open>
  \<^verbatim>\<open>f'{v}'\<close> is \<^verbatim>\<open>format(v, '')\<close>, that is \<^verbatim>\<open>str(v)\<close>: a string is itself, a list or a
  dictionary is printed by the builtin \<^verbatim>\<open>repr\<close>, a parameter here.
\<close>

definition format_val :: "(pyval \<Rightarrow> string) \<Rightarrow> pyval \<Rightarrow> string" where
  "format_val repr v =
     (case v of
        PStr s \<Rightarrow> s
      | PNone \<Rightarrow> ''None''
      | PBool b \<Rightarrow> (if b then ''True'' else ''False'')
      | PInt i \<Rightarrow> str_of_int i
      | _ \<Rightarrow> repr v)"

section \<open>The state the module works on\<close>

type_synonym addr = nat

text \<open>
  The dictionaries of a config entry and the session configuration built from them are
  objects in a store, so that copying and aliasing are visible. A stored value is a plain
  value or a reference to another dictionary of the store.
\<close>

datatype cval = Val pyval | Ref addr

type_synonym cdict = "(string \<times> cval) list"

text \<open>A config entry refers to its \<open>data\<close> and \<open>options\<close> mappings.\<close>

record config_entry =
  entry_id :: string
  data :: addr
  options :: addr

text \<open>The vendor session object \<^verbatim>\<open>Hive(websession)\<close>.\<close>

datatype hive = Hive nat

text \<open>
  What the module hands over to the host framework, in the order it does so: tasks
  given to \<^verbatim>\<open>hass.async_create_task\<close>, records of the error log, signals sent on the
  dispatcher.
\<close>

datatype event =
    FlowInit string string "(string \<times> pyval) list"
  | ForwardEntrySetup string string
  | LogError exn
  | DispatcherSend string

text \<open>
  \<open>DEVICETYPE_var\<close> is the module-level name \<^verbatim>\<open>DEVICETYPE\<close>, \<open>hass_data\<close> is
  \<^verbatim>\<open>hass.data\<close> (the module keeps a dictionary of sessions under \<open>DOMAIN\<close>), \<open>heap\<close> and
  \<open>next_addr\<close> are the store of dictionaries and its next free address.
\<close>

record world =
  DEVICETYPE_var :: devicetype
  hass_data :: "(string \<times> (string \<times> hive) list) list"
  heap :: "addr \<Rightarrow> cdict"
  next_addr :: addr
  events :: "event list"

text \<open>The state after the module is loaded: the table is bound, nothing else has happened.\<close>

definition module_load :: "world \<Rightarrow> world" where
  "module_load w = w\<lparr>DEVICETYPE_var := DEVICETYPE\<rparr>"

section \<open>HiveEntity\<close>

record DeviceInfo =
  identifiers :: "(string \<times> pyval) set"
  model :: pyval
  manufacturer :: pyval
  name :: pyval
  sw_version :: pyval
  via_device :: "string \<times> pyval"

record HiveEntity =
  hive :: hive
  device :: "(string \<times> pyval) list"
  attr_name :: pyval
  attr_unique_id :: string
  attr_entity_category :: pyval
  attr_device_class :: "metarec option"
  attr_state_class :: "metaval option"
  attr_native_unit_of_measurement :: "metaval option"
  attr_device_info :: DeviceInfo
  attributes :: "(string \<times> pyval) list"

text \<open>
  \<^verbatim>\<open>HiveEntity.__init__\<close>, statement by statement. The result is the exception raised
  or the initialised entity, together with the state, which the constructor only reads.
  Building the set \<^verbatim>\<open>{(DOMAIN, device_id)}\<close> hashes the tuple, hence \<open>device_id\<close>.
\<close>

definition HiveEntity_init ::
  "hive_consts \<Rightarrow> (pyval \<Rightarrow> string) \<Rightarrow> world \<Rightarrow> hive \<Rightarrow> (string \<times> pyval) list
     \<Rightarrow> (exn + HiveEntity) \<times> world" where
  "HiveEntity_init c repr w hv hive_device =
    (andthen (getitem hive_device ''haName'') (\<lambda>ha_name.
     andthen (getitem hive_device ''hiveID'') (\<lambda>hive_id.
     andthen (getitem hive_device ''hiveType'') (\<lambda>hive_type.
     let unique_id = format_val repr hive_id @ ''-'' @ format_val repr hive_type;
         category = get_or_none hive_device ''category''
     in
     andthen (getitem hive_device ''hiveType'') (\<lambda>hive_type2.
     andthen (get_val (DEVICETYPE_var w) hive_type2) (\<lambda>device_class.
     andthen (getitem_val (DEVICETYPE_var w) (get_or_none hive_device ''hiveType'')) (\<lambda>rec1.
     let state_class = map_of rec1 ''state_class'' in
     andthen (getitem_val (DEVICETYPE_var w) (get_or_none hive_device ''hiveType'')) (\<lambda>rec2.
     let unit = map_of rec2 ''unit'' in
     andthen (getitem hive_device ''device_id'') (\<lambda>device_id.
     andthen (if hashable device_id then Inr {(DOMAIN c, device_id)} else Inl TypeError)
       (\<lambda>idents.
     andthen (getitem hive_device ''deviceData'') (\<lambda>dd1.
     andthen (subscript dd1 ''model'') (\<lambda>mdl.
     andthen (getitem hive_device ''deviceData'') (\<lambda>dd2.
     andthen (subscript dd2 ''manufacturer'') (\<lambda>manu.
     andthen (getitem hive_device ''device_name'') (\<lambda>dev_name.
     andthen (getitem hive_device ''deviceData'') (\<lambda>dd3.
     andthen (subscript dd3 ''version'') (\<lambda>version.
     andthen (getitem hive_device ''parentDevice'') (\<lambda>parent.
     Inr \<lparr> hive = hv,
           device = hive_device,
           attr_name = ha_name,
           attr_unique_id = unique_id,
           attr_entity_category = category,
           attr_device_class = device_class,
           attr_state_class = state_class,
           attr_native_unit_of_measurement = unit,
           attr_device_info =
             \<lparr> identifiers = idents,
               model = mdl,
               manufacturer = manu,
               name = dev_name,
               sw_version = version,
               via_device = (DOMAIN c, parent) \<rparr>,
           attributes = [] \<rparr>))))))))))))))))),
     w)"

section \<open>Setting up and unloading\<close>

text \<open>Creating a dictionary object: it is stored at the next free address.\<close>

definition alloc :: "cdict \<Rightarrow> world \<Rightarrow> addr \<times> world" where
  "alloc d w =
     (next_addr w, w\<lparr>heap := (heap w)(next_addr w := d), next_addr := Suc (next_addr w)\<rparr>)"

text \<open>Item assignment \<^verbatim>\<open>obj[k] = v\<close> on the dictionary object at address \<open>a\<close>.\<close>

definition setitem :: "addr \<Rightarrow> string \<Rightarrow> cval \<Rightarrow> world \<Rightarrow> world" where
  "setitem a k v w = w\<lparr>heap := (heap w)(a := AList.update k v (heap w a))\<rparr>"

definition emit :: "event \<Rightarrow> world \<Rightarrow> world" where
  "emit ev w = w\<lparr>events := events w @ [ev]\<rparr>"

text \<open>Python truth value of a value, as tested by \<^verbatim>\<open>if device_list:\<close>.\<close>

fun truthy :: "pyval \<Rightarrow> bool" where
  "truthy PNone = False"
| "truthy (PBool b) = b"
| "truthy (PInt i) = (i \<noteq> 0)"
| "truthy (PStr s) = (s \<noteq> [])"
| "truthy (PList xs) = (xs \<noteq> [])"
| "truthy (PDict d) = (d \<noteq> [])"

text \<open>
  \<^verbatim>\<open>async_setup\<close>. The host's \<^verbatim>\<open>hass.config_entries.async_entries\<close> is a parameter;
  \<open>config\<close> maps a domain to its configuration section.
\<close>

definition async_setup ::
  "hive_consts \<Rightarrow> (string \<Rightarrow> config_entry list) \<Rightarrow> world \<Rightarrow> (string \<times> pyval) list
     \<Rightarrow> (exn + bool) \<times> world" where
  "async_setup c async_entries w config =
    (let w1 = w\<lparr>hass_data := AList.update (DOMAIN c) [] (hass_data w)\<rparr> in
     case map_of config (DOMAIN c) of
       None \<Rightarrow> (Inr True, w1)
     | Some conf \<Rightarrow>
         (if async_entries (DOMAIN c) = [] then
            (case andthen (subscript conf (CONF_USERNAME c)) (\<lambda>username.
                  andthen (subscript conf (CONF_PASSWORD c)) (\<lambda>password.
                  Inr (AList.update (CONF_PASSWORD c) password [(CONF_USERNAME c, username)]))) of
               Inl e \<Rightarrow> (Inl e, w1)
             | Inr d \<Rightarrow> (Inr True, emit (FlowInit (DOMAIN c) (SOURCE_IMPORT c) d) w1))
          else (Inr True, w1)))"

text \<open>
  The loop over \<^verbatim>\<open>PLATFORM_LOOKUP.items()\<close>: one task per platform whose Hive type has a
  truthy entry in \<open>devices\<close>.
\<close>

fun forward_platforms ::
  "(string \<times> string) list \<Rightarrow> (string \<times> pyval) list \<Rightarrow> config_entry \<Rightarrow> world \<Rightarrow> world" where
  "forward_platforms [] devices entry w = w"
| "forward_platforms ((ha_type, hive_type) # rest) devices entry w =
     (let device_list = get_or_none devices hive_type in
      forward_platforms rest devices entry
        (if truthy device_list then emit (ForwardEntrySetup (entry_id entry) ha_type) w else w))"

text \<open>
  \<^verbatim>\<open>async_setup_entry\<close>, first part: the statements before the \<^verbatim>\<open>try\<close>. The client
  session the host hands out (\<open>websession\<close>) is a parameter. \<^verbatim>\<open>dict(entry.data)\<close> is a
  new object holding the items of the entry's data, and \<^verbatim>\<open>{}\<close> is a new object, too.
  The result is the session object and the address of \<open>hive_config\<close>, or the KeyError of
  \<^verbatim>\<open>hass.data[DOMAIN]\<close>.
\<close>

definition make_session ::
  "hive_consts \<Rightarrow> nat \<Rightarrow> world \<Rightarrow> config_entry \<Rightarrow> (exn + hive \<times> addr) \<times> world" where
  "make_session c websession w entry =
    (let hv = Hive websession;
         (hive_config, w1) = alloc (heap w (data entry)) w;
         (opts, w2) = alloc [] w1;
         w3 = setitem hive_config ''options'' (Ref opts) w2;
         scan_interval =
           (case map_of (heap w3 (options entry)) (CONF_SCAN_INTERVAL c) of
              None \<Rightarrow> Val (PInt 120)
            | Some v \<Rightarrow> v);
         w4 = setitem opts (CONF_SCAN_INTERVAL c) scan_interval w3
     in
     case map_of (hass_data w4) (DOMAIN c) of
       None \<Rightarrow> (Inl KeyError, w4)
     | Some sessions \<Rightarrow>
         (Inr (hv, hive_config),
          w4\<lparr>hass_data :=
               AList.update (DOMAIN c) (AList.update (entry_id entry) hv sessions)
                 (hass_data w4)\<rparr>))"

text \<open>
  \<^verbatim>\<open>async_setup_entry\<close>: the first part, then the \<^verbatim>\<open>try\<close> statement and the loop. The
  vendor's \<^verbatim>\<open>hive.session.startSession\<close> is a parameter: called in the state reached
  so far with the address of \<open>hive_config\<close>, it returns the devices or raises.
\<close>

definition async_setup_entry ::
  "hive_consts \<Rightarrow> nat \<Rightarrow> (world \<Rightarrow> addr \<Rightarrow> exn + (string \<times> pyval) list)
     \<Rightarrow> world \<Rightarrow> config_entry \<Rightarrow> (exn + bool) \<times> world" where
  "async_setup_entry c websession startSession w entry =
    (case make_session c websession w entry of
       (Inl e, w4) \<Rightarrow> (Inl e, w4)
     | (Inr (hv, hive_config), w5) \<Rightarrow>
         (case startSession w5 hive_config of
            Inl error \<Rightarrow>
              (if error = HTTPException then
                 (Inl ConfigEntryNotReady, emit (LogError error) w5)
               else if error = HiveReauthRequired then
                 (Inl ConfigEntryAuthFailed, w5)
               else (Inl error, w5))
          | Inr devices \<Rightarrow>
              (Inr True, forward_platforms (PLATFORM_LOOKUP c) devices entry w5)))"

text \<open>
  \<^verbatim>\<open>async_unload_entry\<close>. The host's \<^verbatim>\<open>async_unload_platforms\<close> is a parameter:
  called in the current state with the entry and \<open>PLATFORMS\<close>, it returns a boolean or
  raises. \<^verbatim>\<open>pop\<close> raises KeyError when the key is absent.
\<close>

definition async_unload_entry ::
  "hive_consts \<Rightarrow> (world \<Rightarrow> config_entry \<Rightarrow> string list \<Rightarrow> exn + bool)
     \<Rightarrow> world \<Rightarrow> config_entry \<Rightarrow> (exn + bool) \<times> world" where
  "async_unload_entry c async_unload_platforms w entry =
    (case async_unload_platforms w entry (PLATFORMS c) of
       Inl e \<Rightarrow> (Inl e, w)
     | Inr unload_ok \<Rightarrow>
         (if unload_ok then
            (case map_of (hass_data w) (DOMAIN c) of
               None \<Rightarrow> (Inl KeyError, w)
             | Some sessions \<Rightarrow>
                 (case map_of sessions (entry_id entry) of
                    None \<Rightarrow> (Inl KeyError, w)
                  | Some _ \<Rightarrow>
                      (Inr unload_ok,
                       w\<lparr>hass_data :=
                           AList.update (DOMAIN c) (AList.delete (entry_id entry) sessions)
                             (hass_data w)\<rparr>)))
          else (Inr unload_ok, w)))"

section \<open>The refresh decorator\<close>

text \<open>
  \<^verbatim>\<open>refresh_system(func)\<close> returns \<open>wrapper\<close>: it awaits \<open>func\<close>, and when that returns it
  sends on the dispatcher and returns None. An exception of \<open>func\<close> leaves the wrapper
  at once.
\<close>

definition refresh_system ::
  "hive_consts \<Rightarrow> ('self \<Rightarrow> 'args \<Rightarrow> world \<Rightarrow> (exn + 'r) \<times> world)
     \<Rightarrow> 'self \<Rightarrow> 'args \<Rightarrow> world \<Rightarrow> (exn + unit) \<times> world" where
  "refresh_system c func self args w =
    (case func self args w of
       (Inl e, w1) \<Rightarrow> (Inl e, w1)
     | (Inr r, w1) \<Rightarrow> (Inr (), emit (DispatcherSend (DOMAIN c)) w1))"

section \<open>Concrete inputs\<close>

text \<open>
  Values of the imported constants, a freshly loaded state and a device dictionary, used
  to run the definitions on concrete inputs.
\<close>

definition consts_example :: hive_consts where
  "consts_example =
     \<lparr> DOMAIN = ''hive'',
       PLATFORMS = [''binary_sensor'', ''climate'', ''light''],
       PLATFORM_LOOKUP =
         [(''binary_sensor'', ''binary_sensor''), (''climate'', ''climate''),
          (''light'', ''light'')],
       CONF_USERNAME = ''username'',
       CONF_PASSWORD = ''password'',
       CONF_SCAN_INTERVAL = ''scan_interval'',
       SOURCE_IMPORT = ''import'' \<rparr>"

definition repr_example :: "pyval \<Rightarrow> string" where
  "repr_example v = ''?''"

definition world_example :: world where
  "world_example =
     module_load
       \<lparr> DEVICETYPE_var = [],
         hass_data = [(''hive'', [])],
         heap = (\<lambda>a. []) (0 := [(''username'', Val (PStr ''u'')), (''password'', Val (PStr ''p''))],
                            1 := [(''scan_interval'', Val (PInt 30))]),
         next_addr = 2,
         events = [] \<rparr>"

definition entry_example :: config_entry where
  "entry_example = \<lparr> entry_id = ''e1'', data = 0, options = 1 \<rparr>"

text \<open>A state in which two entries have their sessions stored.\<close>

definition world_loaded :: world where
  "world_loaded = world_example\<lparr>hass_data := [(''hive'', [(''e1'', Hive 7), (''e2'', Hive 8)])]\<rparr>"

definition device_example :: "string \<Rightarrow> (string \<times> pyval) list" where
  "device_example t =
     [(''haName'', PStr ''Hall''), (''hiveID'', PStr ''abc''), (''hiveType'', PStr t),
      (''device_id'', PStr ''d1''),
      (''deviceData'',
         PDict [(''model'', PStr ''M''), (''manufacturer'', PStr ''Hive''),
                (''version'', PStr ''1.0'')]),
      (''device_name'', PStr ''Sensor''), (''parentDevice'', PStr ''hub'')]"

definition entity_example :: HiveEntity where
  "entity_example =
     \<lparr> hive = Hive 0,
       device = device_example ''contactsensor'',
       attr_name = PStr ''Hall'',
       attr_unique_id = ''abc-contactsensor'',
       attr_entity_category = PNone,
       attr_device_class = Some [(''device_class'', BinaryClass OPENING)],
       attr_state_class = None,
       attr_native_unit_of_measurement = None,
       attr_device_info =
         \<lparr> identifiers = {(''hive'', PStr ''d1'')},
           model = PStr ''M'',
           manufacturer = PStr ''Hive'',
           name = PStr ''Sensor'',
           sw_version = PStr ''1.0'',
           via_device = (''hive'', PStr ''hub'') \<rparr>,
       attributes = [] \<rparr>"

section \<open>Auxiliary facts\<close>

lemma andthen_Inr_iff: "(andthen r f = Inr y) = (\<exists>x. r = Inr x \<and> f x = Inr y)"
  by (cases r) (simp_all add: andthen_def)

lemma getitem_Inr_iff: "(getitem d k = Inr v) = (map_of d k = Some v)"
  by (simp add: getitem_def split: option.splits)

lemma get_val_Inr_iff:
  "(get_val t k = Inr r) = (hashable k \<and> r = (case k of PStr s \<Rightarrow> map_of t s | _ \<Rightarrow> None))"
  by (cases k) (auto simp add: get_val_def)

lemma getitem_val_Inr_iff:
  "(getitem_val t k = Inr r) = (\<exists>s. k = PStr s \<and> map_of t s = Some r)"
  by (cases k) (auto simp add: getitem_val_def get_val_def andthen_def split: option.splits)

lemma subscript_Inr_iff:
  "(subscript v k = Inr x) = (\<exists>d. v = PDict d \<and> map_of d k = Some x)"
  by (cases v) (simp_all add: subscript_def getitem_Inr_iff)

lemma format_val_PStr: "format_val repr (PStr s) = s"
  by (simp add: format_val_def)

text \<open>When the constructor returns an entity, and which one.\<close>

lemma HiveEntity_init_Inr_iff:
  "(fst (HiveEntity_init c repr w hv d) = Inr e) =
   (\<exists>n i s r dv dd m mf v dn p.
      map_of d ''haName'' = Some n \<and> map_of d ''hiveID'' = Some i \<and>
      map_of d ''hiveType'' = Some (PStr s) \<and> map_of (DEVICETYPE_var w) s = Some r \<and>
      map_of d ''device_id'' = Some dv \<and> hashable dv \<and>
      map_of d ''deviceData'' = Some (PDict dd) \<and>
      map_of dd ''model'' = Some m \<and> map_of dd ''manufacturer'' = Some mf \<and>
      map_of dd ''version'' = Some v \<and>
      map_of d ''device_name'' = Some dn \<and> map_of d ''parentDevice'' = Some p \<and>
      e = \<lparr> hive = hv, device = d, attr_name = n,
            attr_unique_id = format_val repr i @ ''-'' @ s,
            attr_entity_category = get_or_none d ''category'',
            attr_device_class = Some r,
            attr_state_class = map_of r ''state_class'',
            attr_native_unit_of_measurement = map_of r ''unit'',
            attr_device_info =
              \<lparr> identifiers = {(DOMAIN c, dv)}, model = m, manufacturer = mf, name = dn,
                sw_version = v, via_device = (DOMAIN c, p) \<rparr>,
            attributes = [] \<rparr>)"
  unfolding HiveEntity_init_def fst_conv Let_def andthen_Inr_iff getitem_Inr_iff
    getitem_val_Inr_iff subscript_Inr_iff get_val_Inr_iff
  by (auto simp add: get_or_none_def format_val_PStr)

lemma HiveEntity_init_example:
  "fst (HiveEntity_init consts_example repr_example world_example (Hive 0)
          (device_example ''contactsensor'')) = Inr entity_example"
  by (simp add: HiveEntity_init_def consts_example_def world_example_def module_load_def
      device_example_def entity_example_def DEVICETYPE_def andthen_def getitem_def get_val_def
      getitem_val_def get_or_none_def subscript_def format_val_def)

text \<open>What each operation leaves alone.\<close>

lemma emit_fields:
  "DEVICETYPE_var (emit ev w) = DEVICETYPE_var w"
  "hass_data (emit ev w) = hass_data w"
  "heap (emit ev w) = heap w"
  "next_addr (emit ev w) = next_addr w"
  "events (emit ev w) = events w @ [ev]"
  by (simp_all add: emit_def)

lemma forward_platforms_fields:
  "DEVICETYPE_var (forward_platforms pl devices entry w) = DEVICETYPE_var w"
  "hass_data (forward_platforms pl devices entry w) = hass_data w"
  "heap (forward_platforms pl devices entry w) = heap w"
  "next_addr (forward_platforms pl devices entry w) = next_addr w"
  by (induction pl devices entry w rule: forward_platforms.induct)
     (simp_all add: emit_fields Let_def)

lemma forward_platforms_events:
  "events (forward_platforms pl devices entry w) =
     events w @ map (ForwardEntrySetup (entry_id entry))
                  (map fst (filter (\<lambda>(ha_type, hive_type). truthy (get_or_none devices hive_type)) pl))"
  by (induction pl devices entry w rule: forward_platforms.induct)
     (simp_all add: emit_fields Let_def)

lemma make_session_fields:
  "DEVICETYPE_var (snd (make_session c ws w entry)) = DEVICETYPE_var w"
  "events (snd (make_session c ws w entry)) = events w"
  "next_addr (snd (make_session c ws w entry)) = Suc (Suc (next_addr w))"
  by (simp_all add: make_session_def alloc_def setitem_def Let_def split: option.splits)

lemma make_session_heap:
  "heap (snd (make_session c ws w entry)) =
     (heap w)
       (next_addr w := AList.update ''options'' (Ref (Suc (next_addr w))) (heap w (data entry)),
        Suc (next_addr w) :=
          [(CONF_SCAN_INTERVAL c,
            case map_of (((heap w)(next_addr w :=
                     AList.update ''options'' (Ref (Suc (next_addr w))) (heap w (data entry)),
                     Suc (next_addr w) := [])) (options entry)) (CONF_SCAN_INTERVAL c) of
              None \<Rightarrow> Val (PInt 120) | Some v \<Rightarrow> v)])"
  by (simp add: make_session_def alloc_def setitem_def Let_def fun_upd_twist
      split: option.splits)

lemma make_session_result:
  "make_session c ws w entry = (r, w') \<Longrightarrow>
   (case map_of (hass_data w) (DOMAIN c) of
      None \<Rightarrow> r = Inl KeyError \<and> hass_data w' = hass_data w
    | Some sessions \<Rightarrow>
        r = Inr (Hive ws, next_addr w) \<and>
        hass_data w' =
          AList.update (DOMAIN c) (AList.update (entry_id entry) (Hive ws) sessions)
            (hass_data w))"
  by (auto simp add: make_session_def alloc_def setitem_def Let_def split: option.splits)

lemma async_setup_entry_state:
  "snd (async_setup_entry c ws ss w entry) =
     (case make_session c ws w entry of
        (Inl e, w4) \<Rightarrow> w4
      | (Inr (hv, cfg), w5) \<Rightarrow>
          (case ss w5 cfg of
             Inl error \<Rightarrow> if error = HTTPException then emit (LogError error) w5 else w5
           | Inr devices \<Rightarrow> forward_platforms (PLATFORM_LOOKUP c) devices entry w5))"
  by (simp add: async_setup_entry_def split: prod.splits sum.splits)

lemma async_setup_entry_fields:
  "DEVICETYPE_var (snd (async_setup_entry c ws ss w entry)) = DEVICETYPE_var w"
  "hass_data (snd (async_setup_entry c ws ss w entry)) = hass_data (snd (make_session c ws w entry))"
  "heap (snd (async_setup_entry c ws ss w entry)) = heap (snd (make_session c ws w entry))"
  using make_session_fields(1) [of c ws w entry]
  by (auto simp add: async_setup_entry_state emit_fields forward_platforms_fields
      split: prod.splits sum.splits)

lemma async_setup_DEVICETYPE:
  "DEVICETYPE_var (snd (async_setup c ae w config)) = DEVICETYPE_var w"
  by (simp add: async_setup_def Let_def emit_fields split: option.splits sum.splits)

lemma async_unload_entry_DEVICETYPE:
  "DEVICETYPE_var (snd (async_unload_entry c aup w entry)) = DEVICETYPE_var w"
  by (simp add: async_unload_entry_def split: option.splits sum.splits)

lemma HiveEntity_init_state: "snd (HiveEntity_init c repr w hv d) = w"
  by (simp add: HiveEntity_init_def)

lemma DEVICETYPE_keys:
  "list_all (\<lambda>(k, r). list_all (\<lambda>f. f \<in> {''icon'', ''device_class'', ''state_class'', ''unit''}) (map fst r)) DEVICETYPE"
  by (simp add: DEVICETYPE_def)

text \<open>The first part of the setup, run on the example entry.\<close>

lemma make_session_example:
  "make_session consts_example 5 world_example entry_example =
     (Inr (Hive 5, 2),
      world_example
        \<lparr> hass_data := [(''hive'', [(''e1'', Hive 5)])],
          heap := (heap world_example)
             (2 := [(''username'', Val (PStr ''u'')), (''password'', Val (PStr ''p'')),
                    (''options'', Ref 3)],
              3 := [(''scan_interval'', Val (PInt 30))]),
          next_addr := 4 \<rparr>)"
  by (simp add: make_session_def consts_example_def world_example_def entry_example_def
      module_load_def alloc_def setitem_def Let_def fun_upd_twist)

section \<open>Properties of HiveEntity\<close>

text \<open>
  C2. When \<^verbatim>\<open>HiveEntity.__init__\<close> returns, the fields of the entity are read off the
  device dictionary: the name is the value of \<open>haName\<close>; the unique id is the formatted
  \<open>hiveID\<close>, a hyphen and the formatted \<open>hiveType\<close> (for strings, the strings themselves);
  the entity category is the value of \<open>category\<close>, or None without that key; the
  device-info record has the identifiers \<open>{(DOMAIN, device_id)}\<close>, model, manufacturer and
  sw_version from \<open>deviceData\<close>, the name from \<open>device_name\<close> and via_device
  \<open>(DOMAIN, parentDevice)\<close>.
\<close>

theorem HiveEntity_init_derives_fields:
  assumes "fst (HiveEntity_init c repr w hv d) = Inr e"
  shows "map_of d ''haName'' = Some (attr_name e) \<and>
    (\<exists>i t. map_of d ''hiveID'' = Some i \<and> map_of d ''hiveType'' = Some t \<and>
       attr_unique_id e = format_val repr i @ ''-'' @ format_val repr t) \<and>
    (\<forall>a b. map_of d ''hiveID'' = Some (PStr a) \<and> map_of d ''hiveType'' = Some (PStr b)
       \<longrightarrow> attr_unique_id e = a @ ''-'' @ b) \<and>
    attr_entity_category e = get_or_none d ''category'' \<and>
    (\<exists>dv. map_of d ''device_id'' = Some dv \<and>
       identifiers (attr_device_info e) = {(DOMAIN c, dv)}) \<and>
    (\<exists>dd. map_of d ''deviceData'' = Some (PDict dd) \<and>
       map_of dd ''model'' = Some (model (attr_device_info e)) \<and>
       map_of dd ''manufacturer'' = Some (manufacturer (attr_device_info e)) \<and>
       map_of dd ''version'' = Some (sw_version (attr_device_info e))) \<and>
    map_of d ''device_name'' = Some (name (attr_device_info e)) \<and>
    (\<exists>p. map_of d ''parentDevice'' = Some p \<and>
       via_device (attr_device_info e) = (DOMAIN c, p))"
  using assms unfolding HiveEntity_init_Inr_iff
  by (auto simp add: format_val_PStr)

theorem HiveEntity_init_derives_fields_witness:
  "fst (HiveEntity_init consts_example repr_example world_example (Hive 0)
          (device_example ''contactsensor'')) = Inr entity_example \<and>
   attr_name entity_example = PStr ''Hall'' \<and>
   attr_unique_id entity_example = ''abc-contactsensor'' \<and>
   attr_entity_category entity_example = PNone \<and>
   identifiers (attr_device_info entity_example) = {(''hive'', PStr ''d1'')} \<and>
   via_device (attr_device_info entity_example) = (''hive'', PStr ''hub'')"
proof -
  note f = HiveEntity_init_derives_fields [OF HiveEntity_init_example]
  have d: "DOMAIN consts_example = ''hive''"
    by (simp add: consts_example_def)
  from f have 1: "attr_name entity_example = PStr ''Hall''"
    by (simp add: device_example_def)
  from f have 2: "attr_unique_id entity_example = ''abc-contactsensor''"
    by (simp add: device_example_def format_val_PStr)
  from f have 3: "attr_entity_category entity_example = PNone"
    by (simp add: device_example_def get_or_none_def)
  from f have 4: "identifiers (attr_device_info entity_example) = {(''hive'', PStr ''d1'')}"
    by (simp add: device_example_def d)
  from f have 5: "via_device (attr_device_info entity_example) = (''hive'', PStr ''hub'')"
    by (simp add: device_example_def d)
  from HiveEntity_init_example 1 2 3 4 5 show ?thesis
    by blast
qed

text \<open>
  C3, as stated, fails: a device dictionary with every required key whose \<open>hiveType\<close> is
  not a key of the table makes the constructor raise KeyError, at
  \<^verbatim>\<open>DEVICETYPE[self.device.get("hiveType")]\<close>.
\<close>

theorem HiveEntity_init_unknown_type_raises:
  "set [''haName'', ''hiveID'', ''hiveType'', ''device_id'', ''deviceData'', ''device_name'',
        ''parentDevice''] \<subseteq> fst ` set (device_example ''thermostat'') \<and>
   subscript (PDict [(''model'', PStr ''M''), (''manufacturer'', PStr ''Hive''),
                (''version'', PStr ''1.0'')]) ''model'' = Inr (PStr ''M'') \<and>
   fst (HiveEntity_init consts_example repr_example world_example (Hive 0)
          (device_example ''thermostat'')) = Inl KeyError"
  by (simp add: HiveEntity_init_def consts_example_def world_example_def module_load_def
      device_example_def DEVICETYPE_def andthen_def getitem_def get_val_def
      getitem_val_def get_or_none_def subscript_def format_val_def)

text \<open>
  C3, amended. The constructor returns an entity exactly when the dictionary has the keys
  \<open>haName\<close>, \<open>hiveID\<close>, \<open>hiveType\<close>, \<open>device_id\<close>, \<open>deviceData\<close>, \<open>device_name\<close> and
  \<open>parentDevice\<close>, the value of \<open>hiveType\<close> is a string that is a key of the table, the
  value of \<open>device_id\<close> is hashable, and the value of \<open>deviceData\<close> is a dictionary with the
  keys \<open>model\<close>, \<open>manufacturer\<close> and \<open>version\<close>. Nothing else about the values is checked.
\<close>

theorem HiveEntity_init_succeeds_iff:
  "(\<exists>e. fst (HiveEntity_init c repr w hv d) = Inr e) =
   (\<exists>n i s r dv dd m mf v dn p.
      map_of d ''haName'' = Some n \<and> map_of d ''hiveID'' = Some i \<and>
      map_of d ''hiveType'' = Some (PStr s) \<and> map_of (DEVICETYPE_var w) s = Some r \<and>
      map_of d ''device_id'' = Some dv \<and> hashable dv \<and>
      map_of d ''deviceData'' = Some (PDict dd) \<and>
      map_of dd ''model'' = Some m \<and> map_of dd ''manufacturer'' = Some mf \<and>
      map_of dd ''version'' = Some v \<and>
      map_of d ''device_name'' = Some dn \<and> map_of d ''parentDevice'' = Some p)"
  unfolding HiveEntity_init_Inr_iff by blast

theorem HiveEntity_init_succeeds_iff_witness:
  "(\<exists>e. fst (HiveEntity_init consts_example repr_example world_example (Hive 0)
          (device_example ''Power'')) = Inr e) \<and>
   map_of (device_example ''Power'') ''hiveType'' = Some (PStr ''Power'') \<and>
   map_of (DEVICETYPE_var world_example) ''Power'' \<noteq> None"
  unfolding HiveEntity_init_succeeds_iff
  by (simp add: device_example_def world_example_def module_load_def DEVICETYPE_def)

text \<open>
  C8. For a device dictionary whose \<open>hiveType\<close> is a key of the table, the constructor
  stores the whole record of the table under that key as the device class (for
  \<open>contactsensor\<close>, the record with the one item \<open>device_class\<close>: OPENING), while the state
  class and the unit of measurement are the record's items \<open>state_class\<close> and \<open>unit\<close>
  (None when the record has no such item).
\<close>

theorem HiveEntity_init_device_class_is_record:
  assumes "fst (HiveEntity_init c repr w hv d) = Inr e"
    and "map_of d ''hiveType'' = Some (PStr s)"
    and "map_of (DEVICETYPE_var w) s = Some r"
  shows "attr_device_class e = Some r \<and>
    attr_state_class e = map_of r ''state_class'' \<and>
    attr_native_unit_of_measurement e = map_of r ''unit''"
  using assms unfolding HiveEntity_init_Inr_iff by auto

theorem HiveEntity_init_device_class_is_record_witness:
  "fst (HiveEntity_init consts_example repr_example world_example (Hive 0)
          (device_example ''contactsensor'')) = Inr entity_example \<and>
   map_of (device_example ''contactsensor'') ''hiveType'' = Some (PStr ''contactsensor'') \<and>
   map_of (DEVICETYPE_var world_example) ''contactsensor'' =
     Some [(''device_class'', BinaryClass OPENING)] \<and>
   attr_device_class entity_example = Some [(''device_class'', BinaryClass OPENING)] \<and>
   attr_state_class entity_example = None \<and>
   attr_native_unit_of_measurement entity_example = None"
proof -
  have t: "map_of (device_example ''contactsensor'') ''hiveType'' = Some (PStr ''contactsensor'')"
    by (simp add: device_example_def)
  have r: "map_of (DEVICETYPE_var world_example) ''contactsensor'' =
     Some [(''device_class'', BinaryClass OPENING)]"
    by (simp add: world_example_def module_load_def DEVICETYPE_def)
  show ?thesis
    using HiveEntity_init_device_class_is_record [OF HiveEntity_init_example t r]
      HiveEntity_init_example t r
    by simp
qed

section \<open>Properties of the table\<close>

text \<open>
  C6. The table \<open>DEVICETYPE\<close> is what the module binds when it is loaded; every record in
  it has only keys among \<open>icon\<close>, \<open>device_class\<close>, \<open>state_class\<close> and \<open>unit\<close>; and
  \<^verbatim>\<open>async_setup\<close>, \<^verbatim>\<open>async_setup_entry\<close>, \<^verbatim>\<open>async_unload_entry\<close> and the constructor
  of HiveEntity leave the table as they found it.
\<close>

theorem DEVICETYPE_static:
  "DEVICETYPE_var (module_load w0) = DEVICETYPE \<and>
   (\<forall>(k, r) \<in> set DEVICETYPE.
      fst ` set r \<subseteq> {''icon'', ''device_class'', ''state_class'', ''unit''}) \<and>
   DEVICETYPE_var (snd (async_setup c ae w config)) = DEVICETYPE_var w \<and>
   DEVICETYPE_var (snd (async_setup_entry c ws ss w entry)) = DEVICETYPE_var w \<and>
   DEVICETYPE_var (snd (async_unload_entry c aup w entry)) = DEVICETYPE_var w \<and>
   DEVICETYPE_var (snd (HiveEntity_init c repr w hv d)) = DEVICETYPE_var w"
proof -
  have "\<forall>(k, r) \<in> set DEVICETYPE.
      fst ` set r \<subseteq> {''icon'', ''device_class'', ''state_class'', ''unit''}"
    using DEVICETYPE_keys by (auto simp add: list_all_iff)
  then show ?thesis
    by (simp add: module_load_def async_setup_DEVICETYPE async_setup_entry_fields
        async_unload_entry_DEVICETYPE HiveEntity_init_state)
qed

theorem DEVICETYPE_static_witness:
  "(''Power'', [(''device_class'', SensorClass ENERGY), (''state_class'', StateClass MEASUREMENT),
      (''unit'', UnitOf POWER_WATT)]) \<in> set DEVICETYPE \<and>
   {''device_class'', ''state_class'', ''unit''}
     \<subseteq> {''icon'', ''device_class'', ''state_class'', ''unit''} \<and>
   DEVICETYPE_var (snd (HiveEntity_init consts_example repr_example world_example (Hive 0)
      (device_example ''Power''))) = DEVICETYPE"
proof -
  have m: "(''Power'', [(''device_class'', SensorClass ENERGY),
      (''state_class'', StateClass MEASUREMENT), (''unit'', UnitOf POWER_WATT)]) \<in> set DEVICETYPE"
    by (simp add: DEVICETYPE_def)
  note t = DEVICETYPE_static [of world_example consts_example "\<lambda>_. []" world_example "[]"
      0 "\<lambda>_ _. Inr []" entry_example "\<lambda>_ _ _. Inr False" repr_example "Hive 0"
      "device_example ''Power''"]
  from t have a: "\<forall>(k, r) \<in> set DEVICETYPE.
      fst ` set r \<subseteq> {''icon'', ''device_class'', ''state_class'', ''unit''}"
    by blast
  from a m have 1: "{''device_class'', ''state_class'', ''unit''}
     \<subseteq> {''icon'', ''device_class'', ''state_class'', ''unit''}"
    by fastforce
  from t have 2: "DEVICETYPE_var (snd (HiveEntity_init consts_example repr_example
      world_example (Hive 0) (device_example ''Power''))) = DEVICETYPE"
    by (simp add: world_example_def module_load_def)
  from m 1 2 show ?thesis by blast
qed

section \<open>Properties of setup and unload\<close>

text \<open>
  C1. In a run of \<^verbatim>\<open>async_setup_entry\<close> that reaches the session bootstrap: if the
  bootstrap raises HTTPException, the setup raises ConfigEntryNotReady; if it raises
  HiveReauthRequired, the setup raises ConfigEntryAuthFailed; every other exception of the
  bootstrap leaves the setup as it is. No third exception is caught.
\<close>

theorem async_setup_entry_maps_exceptions:
  assumes "make_session c ws w entry = (Inr (hv, cfg), w5)"
  shows "(ss w5 cfg = Inl HTTPException \<longrightarrow>
            fst (async_setup_entry c ws ss w entry) = Inl ConfigEntryNotReady) \<and>
         (ss w5 cfg = Inl HiveReauthRequired \<longrightarrow>
            fst (async_setup_entry c ws ss w entry) = Inl ConfigEntryAuthFailed) \<and>
         (\<forall>e. ss w5 cfg = Inl e \<and> e \<noteq> HTTPException \<and> e \<noteq> HiveReauthRequired \<longrightarrow>
            fst (async_setup_entry c ws ss w entry) = Inl e)"
  using assms by (simp add: async_setup_entry_def)

theorem async_setup_entry_maps_exceptions_witness:
  "fst (async_setup_entry consts_example 5 (\<lambda>_ _. Inl HTTPException) world_example
          entry_example) = Inl ConfigEntryNotReady \<and>
   fst (async_setup_entry consts_example 5 (\<lambda>_ _. Inl HiveReauthRequired) world_example
          entry_example) = Inl ConfigEntryAuthFailed \<and>
   fst (async_setup_entry consts_example 5 (\<lambda>_ _. Inl (OtherException ''timeout''))
          world_example entry_example) = Inl (OtherException ''timeout'')"
  using async_setup_entry_maps_exceptions [OF make_session_example, of "\<lambda>_ _. Inl HTTPException"]
    async_setup_entry_maps_exceptions [OF make_session_example, of "\<lambda>_ _. Inl HiveReauthRequired"]
    async_setup_entry_maps_exceptions [OF make_session_example,
      of "\<lambda>_ _. Inl (OtherException ''timeout'')"]
  by simp

text \<open>
  C7. The configuration handed to the bootstrap is a new dictionary with the items of the
  entry's data and, under \<open>options\<close>, a new dictionary whose only item is the scan interval:
  the entry's option of that name when it has one, 120 otherwise. The bootstrap is called
  with this dictionary, and every dictionary that existed before the call, the entry's
  data and options among them, is the same afterwards.
\<close>

theorem async_setup_entry_config:
  assumes "data entry < next_addr w" and "options entry < next_addr w"
  shows "heap (snd (async_setup_entry c ws ss w entry)) (next_addr w) =
           AList.update ''options'' (Ref (Suc (next_addr w))) (heap w (data entry)) \<and>
         heap (snd (async_setup_entry c ws ss w entry)) (Suc (next_addr w)) =
           [(CONF_SCAN_INTERVAL c,
             case map_of (heap w (options entry)) (CONF_SCAN_INTERVAL c) of
               None \<Rightarrow> Val (PInt 120)
             | Some v \<Rightarrow> v)] \<and>
         (\<forall>hv cfg w5. make_session c ws w entry = (Inr (hv, cfg), w5) \<longrightarrow>
            cfg = next_addr w \<and> heap w5 = heap (snd (async_setup_entry c ws ss w entry))) \<and>
         (\<forall>a. a < next_addr w \<longrightarrow>
            heap (snd (async_setup_entry c ws ss w entry)) a = heap w a) \<and>
         heap (snd (async_setup_entry c ws ss w entry)) (data entry) = heap w (data entry) \<and>
         heap (snd (async_setup_entry c ws ss w entry)) (options entry) = heap w (options entry)"
proof -
  let ?h = "heap (snd (async_setup_entry c ws ss w entry))"
  have h: "?h = heap (snd (make_session c ws w entry))"
    by (rule async_setup_entry_fields(3))
  have o: "((heap w)(next_addr w :=
              AList.update ''options'' (Ref (Suc (next_addr w))) (heap w (data entry)),
              Suc (next_addr w) := [])) (options entry) = heap w (options entry)"
    using assms(2) by simp
  have 1: "?h (next_addr w) =
      AList.update ''options'' (Ref (Suc (next_addr w))) (heap w (data entry))"
    unfolding h make_session_heap by simp
  have 2: "?h (Suc (next_addr w)) =
      [(CONF_SCAN_INTERVAL c,
        case map_of (heap w (options entry)) (CONF_SCAN_INTERVAL c) of
          None \<Rightarrow> Val (PInt 120) | Some v \<Rightarrow> v)]"
    unfolding h make_session_heap o by simp
  have 3: "\<forall>hv cfg w5. make_session c ws w entry = (Inr (hv, cfg), w5) \<longrightarrow>
            cfg = next_addr w \<and> heap w5 = ?h"
  proof (intro allI impI)
    fix hv cfg w5
    assume m: "make_session c ws w entry = (Inr (hv, cfg), w5)"
    from make_session_result [OF m] have "cfg = next_addr w"
      by (simp split: option.splits)
    moreover from m h have "heap w5 = ?h" by simp
    ultimately show "cfg = next_addr w \<and> heap w5 = ?h" ..
  qed
  have 4: "\<forall>a. a < next_addr w \<longrightarrow> ?h a = heap w a"
    unfolding h make_session_heap by simp
  from 4 assms have 5: "?h (data entry) = heap w (data entry)"
    and 6: "?h (options entry) = heap w (options entry)"
    by blast+
  from 1 2 3 4 5 6 show ?thesis by blast
qed

theorem async_setup_entry_config_witness:
  "data entry_example < next_addr world_example \<and>
   options entry_example < next_addr world_example \<and>
   heap (snd (async_setup_entry consts_example 5 (\<lambda>_ _. Inr []) world_example entry_example)) 2 =
     [(''username'', Val (PStr ''u'')), (''password'', Val (PStr ''p'')), (''options'', Ref 3)] \<and>
   heap (snd (async_setup_entry consts_example 5 (\<lambda>_ _. Inr []) world_example entry_example)) 3 =
     [(''scan_interval'', Val (PInt 30))] \<and>
   heap (snd (async_setup_entry consts_example 5 (\<lambda>_ _. Inr []) world_example entry_example)) 0 =
     [(''username'', Val (PStr ''u'')), (''password'', Val (PStr ''p''))] \<and>
   heap (snd (async_setup_entry consts_example 5 (\<lambda>_ _. Inr []) world_example entry_example)) 1 =
     [(''scan_interval'', Val (PInt 30))]"
proof -
  have a: "data entry_example < next_addr world_example"
    and b: "options entry_example < next_addr world_example"
    by (simp_all add: entry_example_def world_example_def module_load_def)
  have v: "next_addr world_example = 2" "data entry_example = 0" "options entry_example = 1"
    "heap world_example 0 = [(''username'', Val (PStr ''u'')), (''password'', Val (PStr ''p''))]"
    "heap world_example 1 = [(''scan_interval'', Val (PInt 30))]"
    "CONF_SCAN_INTERVAL consts_example = ''scan_interval''"
    by (simp_all add: entry_example_def world_example_def module_load_def consts_example_def)
  have s: "Suc 2 = 3" by simp
  note t = async_setup_entry_config [OF a b, of consts_example 5 "\<lambda>_ _. Inr []"]
  from t have 1: "heap (snd (async_setup_entry consts_example 5 (\<lambda>_ _. Inr []) world_example
      entry_example)) 2 =
     [(''username'', Val (PStr ''u'')), (''password'', Val (PStr ''p'')), (''options'', Ref 3)]"
    unfolding v s by simp
  from t have 2: "heap (snd (async_setup_entry consts_example 5 (\<lambda>_ _. Inr []) world_example
      entry_example)) 3 = [(''scan_interval'', Val (PInt 30))]"
    unfolding v s by simp
  from t have 3: "heap (snd (async_setup_entry consts_example 5 (\<lambda>_ _. Inr []) world_example
      entry_example)) 0 = [(''username'', Val (PStr ''u'')), (''password'', Val (PStr ''p''))]"
    unfolding v s by simp
  from t have 4: "heap (snd (async_setup_entry consts_example 5 (\<lambda>_ _. Inr []) world_example
      entry_example)) 1 = [(''scan_interval'', Val (PInt 30))]"
    unfolding v s by simp
  from a b 1 2 3 4 show ?thesis by blast
qed

text \<open>
  C9. When \<^verbatim>\<open>hass.data[DOMAIN]\<close> exists, the new session is stored there under the entry's
  id in the state in which the bootstrap is called, hence before the call; and when the
  setup raises ConfigEntryNotReady or ConfigEntryAuthFailed, the session is still stored
  under the entry's id in the state the setup leaves behind.
\<close>

theorem async_setup_entry_keeps_session:
  assumes "map_of (hass_data w) (DOMAIN c) = Some sessions"
  shows "(\<exists>cfg w5. make_session c ws w entry = (Inr (Hive ws, cfg), w5) \<and>
            map_of (hass_data w5) (DOMAIN c) =
              Some (AList.update (entry_id entry) (Hive ws) sessions)) \<and>
         (fst (async_setup_entry c ws ss w entry) = Inl ConfigEntryNotReady \<or>
          fst (async_setup_entry c ws ss w entry) = Inl ConfigEntryAuthFailed \<longrightarrow>
            (\<exists>sessions'.
               map_of (hass_data (snd (async_setup_entry c ws ss w entry))) (DOMAIN c) =
                 Some sessions' \<and>
               map_of sessions' (entry_id entry) = Some (Hive ws)))"
proof -
  obtain r w5 where m: "make_session c ws w entry = (r, w5)"
    by (cases "make_session c ws w entry")
  from make_session_result [OF m] assms
  have r: "r = Inr (Hive ws, next_addr w)"
    and d: "hass_data w5 =
      AList.update (DOMAIN c) (AList.update (entry_id entry) (Hive ws) sessions) (hass_data w)"
    by simp_all
  from d have l: "map_of (hass_data w5) (DOMAIN c) =
      Some (AList.update (entry_id entry) (Hive ws) sessions)"
    by (simp add: update_conv')
  have "hass_data (snd (async_setup_entry c ws ss w entry)) = hass_data w5"
    using async_setup_entry_fields(2) [of c ws ss w entry] m by simp
  with l have "map_of (hass_data (snd (async_setup_entry c ws ss w entry))) (DOMAIN c) =
      Some (AList.update (entry_id entry) (Hive ws) sessions) \<and>
    map_of (AList.update (entry_id entry) (Hive ws) sessions) (entry_id entry) = Some (Hive ws)"
    by (simp add: update_conv')
  with m r l show ?thesis by blast
qed

theorem async_setup_entry_keeps_session_witness:
  "map_of (hass_data world_example) (DOMAIN consts_example) = Some [] \<and>
   fst (async_setup_entry consts_example 5 (\<lambda>_ _. Inl HTTPException) world_example
          entry_example) = Inl ConfigEntryNotReady \<and>
   hass_data (snd (async_setup_entry consts_example 5 (\<lambda>_ _. Inl HTTPException) world_example
          entry_example)) = [(''hive'', [(''e1'', Hive 5)])]"
proof -
  have a: "map_of (hass_data world_example) (DOMAIN consts_example) = Some []"
    by (simp add: world_example_def module_load_def consts_example_def)
  have b: "fst (async_setup_entry consts_example 5 (\<lambda>_ _. Inl HTTPException) world_example
          entry_example) = Inl ConfigEntryNotReady"
    by (simp add: async_setup_entry_def make_session_example)
  have c: "hass_data (snd (async_setup_entry consts_example 5 (\<lambda>_ _. Inl HTTPException)
      world_example entry_example)) = [(''hive'', [(''e1'', Hive 5)])]"
    by (simp add: async_setup_entry_def make_session_example emit_fields)
  from async_setup_entry_keeps_session [OF a, of 5 entry_example "\<lambda>_ _. Inl HTTPException"] b
  have "\<exists>sessions'. map_of (hass_data (snd (async_setup_entry consts_example 5
      (\<lambda>_ _. Inl HTTPException) world_example entry_example))) (DOMAIN consts_example) =
        Some sessions' \<and> map_of sessions' (entry_id entry_example) = Some (Hive 5)"
    by blast
  with a b c show ?thesis by blast
qed

text \<open>
  C10. When the bootstrap returns the devices, the setup returns True and the tasks it
  creates are the forwards of the entry to the platforms of \<open>PLATFORM_LOOKUP\<close>, in its
  order, whose Hive type has a truthy value in the devices: a platform is forwarded if and
  only if the devices hold a truthy value under its Hive type, so never when the value is
  absent (None) or an empty list.
\<close>

theorem async_setup_entry_forwards:
  assumes "make_session c ws w entry = (Inr (hv, cfg), w5)"
    and "ss w5 cfg = Inr devices"
  shows "fst (async_setup_entry c ws ss w entry) = Inr True \<and>
    (\<exists>new. events (snd (async_setup_entry c ws ss w entry)) = events w @ new \<and>
       new = map (ForwardEntrySetup (entry_id entry))
               (map fst (filter (\<lambda>(ha_type, hive_type). truthy (get_or_none devices hive_type))
                  (PLATFORM_LOOKUP c))) \<and>
       (\<forall>ha_type. ForwardEntrySetup (entry_id entry) ha_type \<in> set new \<longleftrightarrow>
          (\<exists>hive_type. (ha_type, hive_type) \<in> set (PLATFORM_LOOKUP c) \<and>
             truthy (get_or_none devices hive_type))))"
proof -
  have ev: "events w5 = events w"
    using make_session_fields(2) [of c ws w entry] assms(1) by simp
  have "\<And>ha_type. ForwardEntrySetup (entry_id entry) ha_type
      \<in> set (map (ForwardEntrySetup (entry_id entry))
               (map fst (filter (\<lambda>(ha_type, hive_type). truthy (get_or_none devices hive_type))
                  (PLATFORM_LOOKUP c)))) \<longleftrightarrow>
      (\<exists>hive_type. (ha_type, hive_type) \<in> set (PLATFORM_LOOKUP c) \<and>
             truthy (get_or_none devices hive_type))"
    by force
  then show ?thesis
    using assms by (simp add: async_setup_entry_def forward_platforms_events ev)
qed

theorem async_setup_entry_forwards_witness:
  "fst (async_setup_entry consts_example 5
      (\<lambda>_ _. Inr [(''climate'', PList [PDict [(''hiveID'', PStr ''abc'')]]), (''light'', PList [])])
      world_example entry_example) = Inr True \<and>
   events (snd (async_setup_entry consts_example 5
      (\<lambda>_ _. Inr [(''climate'', PList [PDict [(''hiveID'', PStr ''abc'')]]), (''light'', PList [])])
      world_example entry_example)) = [ForwardEntrySetup ''e1'' ''climate'']"
  using async_setup_entry_forwards [OF make_session_example,
      of "\<lambda>_ _. Inr [(''climate'', PList [PDict [(''hiveID'', PStr ''abc'')]]), (''light'', PList [])]"
        "[(''climate'', PList [PDict [(''hiveID'', PStr ''abc'')]]), (''light'', PList [])]"]
  by (simp add: consts_example_def entry_example_def world_example_def module_load_def
      get_or_none_def)

text \<open>
  C4. \<^verbatim>\<open>async_unload_entry\<close> asks the host's bulk unload with the entry and \<open>PLATFORMS\<close>.
  When the helper returns False, the function returns False and the state is unchanged.
  When the helper returns True, the function returns True, and the entry's stored session
  is removed from \<^verbatim>\<open>hass.data[DOMAIN]\<close>; the sessions of other entries and the other keys of
  \<^verbatim>\<open>hass.data\<close> stay. The stored session is the one \<^verbatim>\<open>async_setup_entry\<close> has put there.
\<close>

theorem async_unload_entry_delegates:
  "(aup w entry (PLATFORMS c) = Inr False \<longrightarrow>
      async_unload_entry c aup w entry = (Inr False, w)) \<and>
   (aup w entry (PLATFORMS c) = Inr True \<and>
    map_of (hass_data w) (DOMAIN c) = Some sessions \<and>
    map_of sessions (entry_id entry) = Some hv \<longrightarrow>
      fst (async_unload_entry c aup w entry) = Inr True \<and>
      (\<exists>sessions'.
         map_of (hass_data (snd (async_unload_entry c aup w entry))) (DOMAIN c) = Some sessions' \<and>
         map_of sessions' (entry_id entry) = None \<and>
         (\<forall>k. k \<noteq> entry_id entry \<longrightarrow> map_of sessions' k = map_of sessions k)) \<and>
      (\<forall>k. k \<noteq> DOMAIN c \<longrightarrow>
         map_of (hass_data (snd (async_unload_entry c aup w entry))) k = map_of (hass_data w) k))"
  by (simp add: async_unload_entry_def update_conv' delete_conv')

theorem async_unload_entry_delegates_witness:
  "async_unload_entry consts_example (\<lambda>_ _ _. Inr False) world_loaded entry_example =
     (Inr False, world_loaded) \<and>
   fst (async_unload_entry consts_example (\<lambda>_ _ _. Inr True) world_loaded entry_example) =
     Inr True \<and>
   hass_data (snd (async_unload_entry consts_example (\<lambda>_ _ _. Inr True) world_loaded
     entry_example)) = [(''hive'', [(''e2'', Hive 8)])]"
proof -
  have 1: "async_unload_entry consts_example (\<lambda>_ _ _. Inr False) world_loaded entry_example =
     (Inr False, world_loaded)"
    using async_unload_entry_delegates [of "\<lambda>_ _ _. Inr False" world_loaded entry_example
        consts_example "[]" "Hive 7"]
    by simp
  have h: "map_of (hass_data world_loaded) (DOMAIN consts_example) =
      Some [(''e1'', Hive 7), (''e2'', Hive 8)] \<and>
    map_of [(''e1'', Hive 7), (''e2'', Hive 8)] (entry_id entry_example) = Some (Hive 7)"
    by (simp add: world_loaded_def consts_example_def entry_example_def)
  have 2: "fst (async_unload_entry consts_example (\<lambda>_ _ _. Inr True) world_loaded
      entry_example) = Inr True"
    using async_unload_entry_delegates [of "\<lambda>_ _ _. Inr True" world_loaded entry_example
        consts_example "[(''e1'', Hive 7), (''e2'', Hive 8)]" "Hive 7"] h
    by simp
  have 3: "hass_data (snd (async_unload_entry consts_example (\<lambda>_ _ _. Inr True) world_loaded
     entry_example)) = [(''hive'', [(''e2'', Hive 8)])]"
    by (simp add: async_unload_entry_def world_loaded_def consts_example_def entry_example_def
        world_example_def module_load_def)
  from 1 2 3 show ?thesis by blast
qed

section \<open>Properties of the refresh decorator\<close>

text \<open>
  C5. When the wrapped function returns, the wrapper has run it to its end first and then
  sends one signal on \<open>DOMAIN\<close>: the events of the result are the events up to the
  return of the wrapped function followed by that one signal. When the wrapped function
  raises, no signal is sent.
\<close>

theorem refresh_system_sends_after:
  "(func self args w = (Inr r, w1) \<longrightarrow>
      refresh_system c func self args w = (Inr (), emit (DispatcherSend (DOMAIN c)) w1) \<and>
      events (snd (refresh_system c func self args w)) =
        events w1 @ [DispatcherSend (DOMAIN c)]) \<and>
   (func self args w = (Inl e, w1) \<longrightarrow> refresh_system c func self args w = (Inl e, w1))"
  by (simp add: refresh_system_def emit_fields)

theorem refresh_system_sends_after_witness:
  "refresh_system consts_example (\<lambda>self args w. (Inr (Suc args), emit (LogError KeyError) w))
     () 1 world_example =
     (Inr (), emit (DispatcherSend ''hive'') (emit (LogError KeyError) world_example)) \<and>
   events (snd (refresh_system consts_example
       (\<lambda>self args w. (Inr (Suc args), emit (LogError KeyError) w)) () 1 world_example)) =
     [LogError KeyError, DispatcherSend ''hive''] \<and>
   refresh_system consts_example (\<lambda>self args w. (Inl TypeError :: exn + nat, w))
     () (1::nat) world_example = (Inl TypeError, world_example)"
proof -
  have d: "DOMAIN consts_example = ''hive''"
    by (simp add: consts_example_def)
  have e: "events world_example = []"
    by (simp add: world_example_def module_load_def)
  note t = refresh_system_sends_after
    [of "\<lambda>self args w. (Inr (Suc args), emit (LogError KeyError) w)" "()" 1 world_example
      "Suc 1" "emit (LogError KeyError) world_example" consts_example]
  note u = refresh_system_sends_after
    [of "\<lambda>self args w. (Inl TypeError :: exn + nat, w)" "()" "1::nat" world_example
      _ world_example consts_example TypeError]
  from t have 1: "refresh_system consts_example
      (\<lambda>self args w. (Inr (Suc args), emit (LogError KeyError) w)) () 1 world_example =
     (Inr (), emit (DispatcherSend ''hive'') (emit (LogError KeyError) world_example))"
    by (simp add: d)
  from t have 2: "events (snd (refresh_system consts_example
       (\<lambda>self args w. (Inr (Suc args), emit (LogError KeyError) w)) () 1 world_example)) =
     [LogError KeyError, DispatcherSend ''hive'']"
    by (simp add: d e emit_fields)
  from u have 3: "refresh_system consts_example (\<lambda>self args w. (Inl TypeError :: exn + nat, w))
     () (1::nat) world_example = (Inl TypeError, world_example)"
    by simp
  from 1 2 3 show ?thesis by blast
qed

end
